theory Spec2Isabelle
  imports Complex_Main
begin

section \<open>View-local state of the demo component\<close>

text \<open>
  The demo is one function component, \<^verbatim>\<open>App\<close>. Every \<^verbatim>\<open>useState\<close> cell of the
  component is a field of the record \<open>app_state\<close>, under the name the source gives it.
  A handler that calls a setter is a function from the state of the render it closes over
  to the next state.

  JavaScript numbers are modelled by \<open>real\<close>: the values the handlers below compute with
  (the factors \<open>1\<close> and \<open>-1\<close>, the quotients of the presets, the coordinates of a
  selection) are finite, negation is exact on a double, and \<^verbatim>\<open>Math.round\<close> of a finite
  double is the integer the real-number formula gives.
\<close>

type_synonym number = real

datatype export_format = Png | Jpeg | Webp

datatype tab = Basic | Transform | Advanced | Actions

datatype preset = Profile | Banner | Thumbnail

record crop_rect =
  crop_x :: number
  crop_y :: number
  crop_width :: number
  crop_height :: number

record app_state =
  imgSrc :: string
  croppedImage :: "string option"
  livePreview :: "string option"
  canvasBackground :: bool
  canvasDisabled :: bool
  scaleX :: number
  scaleY :: number
  showShade :: bool
  showGrid :: bool
  showCrosshair :: bool
  aspectRatio :: "number option"
  themeColor :: string
  movable :: bool
  resizable :: bool
  zoomable :: bool
  gridRows :: number
  gridColumns :: number
  exportFormat :: export_format
  exportQuality :: number
  cropData :: "crop_rect option"
  activeTab :: tab

text \<open>
  The initial values of the \<^verbatim>\<open>useState\<close> calls. \<open>image1\<close> is the URL the bundler
  gives the imported asset.
\<close>

definition initial_state :: "string \<Rightarrow> app_state" where
  "initial_state image1 =
     \<lparr> imgSrc = image1,
       croppedImage = None,
       livePreview = None,
       canvasBackground = True,
       canvasDisabled = False,
       scaleX = 1,
       scaleY = 1,
       showShade = False,
       showGrid = True,
       showCrosshair = True,
       aspectRatio = None,
       themeColor = ''#3399ff'',
       movable = True,
       resizable = True,
       zoomable = True,
       gridRows = 3,
       gridColumns = 3,
       exportFormat = Png,
       exportQuality = 92 / 100,
       cropData = None,
       activeTab = Basic \<rparr>"

section \<open>Presets\<close>

text \<open>
  \<^verbatim>\<open>applyPreset\<close>: a \<^verbatim>\<open>switch\<close> over the three preset names, each case one call of
  \<^verbatim>\<open>setAspectRatio\<close>.
\<close>

fun applyPreset :: "preset \<Rightarrow> app_state \<Rightarrow> app_state" where
  "applyPreset Profile st = st\<lparr>aspectRatio := Some 1\<rparr>"
| "applyPreset Banner st = st\<lparr>aspectRatio := Some (16 / 9)\<rparr>"
| "applyPreset Thumbnail st = st\<lparr>aspectRatio := Some (4 / 3)\<rparr>"

section \<open>Flips\<close>

text \<open>
  \<^verbatim>\<open>handleFlipHorizontal\<close> and \<^verbatim>\<open>handleFlipVertical\<close> multiply the factor of their axis
  by \<open>-1\<close> and store the product.
\<close>

definition handleFlipHorizontal :: "app_state \<Rightarrow> app_state" where
  "handleFlipHorizontal st = (let newScaleX = scaleX st * - 1 in st\<lparr>scaleX := newScaleX\<rparr>)"

definition handleFlipVertical :: "app_state \<Rightarrow> app_state" where
  "handleFlipVertical st = (let newScaleY = scaleY st * - 1 in st\<lparr>scaleY := newScaleY\<rparr>)"

datatype flip = FlipHorizontal | FlipVertical

fun flip_action :: "flip \<Rightarrow> app_state \<Rightarrow> app_state" where
  "flip_action FlipHorizontal st = handleFlipHorizontal st"
| "flip_action FlipVertical st = handleFlipVertical st"

text \<open>A sequence of clicks on the two flip buttons, the first click first.\<close>

fun flips :: "flip list \<Rightarrow> app_state \<Rightarrow> app_state" where
  "flips [] st = st"
| "flips (f # fs) st = flips fs (flip_action f st)"

text \<open>
  The two effects that follow the factors. React runs an effect after a commit in which
  one of its dependencies changed; the first depends on \<^verbatim>\<open>scaleX\<close> alone and the second
  on \<^verbatim>\<open>scaleY\<close> alone. Each reads \<^verbatim>\<open>imageRef.current\<close> and, when the element is there,
  calls its \<^verbatim>\<open>$scale\<close>. The calls made on the element are returned as a list.
\<close>

datatype image_el = CropperImage

datatype image_call = Scale number number

definition scaleX_effect :: "image_el option \<Rightarrow> app_state \<Rightarrow> image_call list" where
  "scaleX_effect imageRef st =
     (case imageRef of None \<Rightarrow> [] | Some el \<Rightarrow> [Scale (- 1) (scaleY st)])"

definition scaleY_effect :: "image_el option \<Rightarrow> app_state \<Rightarrow> image_call list" where
  "scaleY_effect imageRef st =
     (case imageRef of None \<Rightarrow> [] | Some el \<Rightarrow> [Scale (scaleX st) (- 1)])"

definition run_effects :: "image_el option \<Rightarrow> app_state \<Rightarrow> app_state \<Rightarrow> image_call list" where
  "run_effects imageRef prev st =
     (if scaleX st \<noteq> scaleX prev then scaleX_effect imageRef st else [])
     @ (if scaleY st \<noteq> scaleY prev then scaleY_effect imageRef st else [])"

text \<open>
  A click on a flip button: the handler runs on the state of the current render, React
  commits the new state, and the effects whose dependency changed run on it.
\<close>

definition click_flip_horizontal ::
  "image_el option \<Rightarrow> app_state \<Rightarrow> app_state \<times> image_call list" where
  "click_flip_horizontal imageRef st =
     (let st' = handleFlipHorizontal st in (st', run_effects imageRef st st'))"

definition click_flip_vertical ::
  "image_el option \<Rightarrow> app_state \<Rightarrow> app_state \<times> image_call list" where
  "click_flip_vertical imageRef st =
     (let st' = handleFlipVertical st in (st', run_effects imageRef st st'))"

section \<open>The selection element and the handlers that read it\<close>

text \<open>
  A thrown value or the reason of a rejected promise is a \<open>js_error\<close>. A call that may
  throw, and a promise once settled, is a value of \<open>js_error + 'a\<close>, \<open>Inl\<close> the error.

  The canvas and the selection element belong to the wrapped toolkit and the browser, so
  what they answer is a parameter: \<open>toDataURL\<close> maps the two optional arguments of the
  call to the data URL or the error thrown, and \<open>toCanvas\<close> is how the promise of
  \<^verbatim>\<open>$toCanvas()\<close> settles.
\<close>

datatype js_error = JsError string

record canvas_el =
  toDataURL :: "string option \<Rightarrow> number option \<Rightarrow> js_error + string"

record selection_el =
  sel_x :: number
  sel_y :: number
  sel_width :: number
  sel_height :: number
  toCanvas :: "js_error + canvas_el"

text \<open>
  An \<^verbatim>\<open>async\<close> handler returns a promise and, when it resumes after its \<^verbatim>\<open>await\<close>, may
  call a setter. \<open>settled\<close> is how the returned promise settles; \<open>setState\<close> is the
  update the resumed handler makes to the state it then finds (the identity when it calls
  no setter).
\<close>

record async_result =
  settled :: "js_error + unit"
  setState :: "app_state \<Rightarrow> app_state"

definition fulfilled :: "(app_state \<Rightarrow> app_state) \<Rightarrow> async_result" where
  "fulfilled upd = \<lparr> settled = Inr (), setState = upd \<rparr>"

definition rejected :: "js_error \<Rightarrow> async_result" where
  "rejected err = \<lparr> settled = Inl err, setState = (\<lambda>cur. cur) \<rparr>"

definition updateLivePreview :: "selection_el option \<Rightarrow> async_result" where
  "updateLivePreview selectionRef =
     (case selectionRef of
        None \<Rightarrow> fulfilled (\<lambda>cur. cur)
      | Some selection \<Rightarrow>
          (case toCanvas selection of
             Inl err \<Rightarrow> rejected err
           | Inr canvas \<Rightarrow>
               (case toDataURL canvas None None of
                  Inl err \<Rightarrow> rejected err
                | Inr url \<Rightarrow> fulfilled (\<lambda>cur. cur\<lparr>livePreview := Some url\<rparr>))))"

text \<open>
  \<^verbatim>\<open>Math.round\<close>: the integer closest to the argument, the larger one of two that are
  equally close, which is \<open>\<lfloor>x + 1/2\<rfloor>\<close>.
\<close>

definition Math_round :: "number \<Rightarrow> number" where
  "Math_round v = of_int \<lfloor>v + 1 / 2\<rfloor>"

text \<open>
  \<^verbatim>\<open>onCrop\<close> starts \<^verbatim>\<open>updateLivePreview\<close> without awaiting it, then stores the rounded
  rectangle of the selection. It returns the next state and the promise left pending.
\<close>

definition onCrop :: "selection_el option \<Rightarrow> app_state \<Rightarrow> app_state \<times> async_result" where
  "onCrop selectionRef st =
     (let pending = updateLivePreview selectionRef in
      (case selectionRef of
         None \<Rightarrow> (st, pending)
       | Some selection \<Rightarrow>
           (st\<lparr>cropData := Some
                 \<lparr> crop_x = Math_round (sel_x selection),
                   crop_y = Math_round (sel_y selection),
                   crop_width = Math_round (sel_width selection),
                   crop_height = Math_round (sel_height selection) \<rparr>\<rparr>,
            pending)))"

text \<open>The members of the union type \<^verbatim>\<open>'png' | 'jpeg' | 'webp'\<close>, as the strings they are.\<close>

fun format_name :: "export_format \<Rightarrow> string" where
  "format_name Png = ''png''"
| "format_name Jpeg = ''jpeg''"
| "format_name Webp = ''webp''"

definition handleGetResult :: "selection_el option \<Rightarrow> app_state \<Rightarrow> async_result" where
  "handleGetResult selectionRef st =
     (case selectionRef of
        None \<Rightarrow> fulfilled (\<lambda>cur. cur)
      | Some selection \<Rightarrow>
          (case toCanvas selection of
             Inl err \<Rightarrow> rejected err
           | Inr canvas \<Rightarrow>
               (let mimeType = ''image/'' @ format_name (exportFormat st) in
                (case toDataURL canvas (Some mimeType) (Some (exportQuality st)) of
                   Inl err \<Rightarrow> rejected err
                 | Inr dataUrl \<Rightarrow> fulfilled (\<lambda>cur. cur\<lparr>croppedImage := Some dataUrl\<rparr>)))))"

section \<open>File upload\<close>

text \<open>
  \<^verbatim>\<open>e.target.files\<close> is a list of files or \<^verbatim>\<open>null\<close>; \<^verbatim>\<open>files?.[0]\<close> is its first
  file when there is one. The \<^verbatim>\<open>result\<close> of a reader is a string, an array buffer or
  \<^verbatim>\<open>null\<close>, and the \<^verbatim>\<open>target\<close> of the load event is the reader or \<^verbatim>\<open>null\<close>.
\<close>

type_synonym js_file = string

datatype file_result = ResultString string | ResultArrayBuffer "nat list" | ResultNull

record file_reader =
  result :: file_result

record load_event =
  target :: "file_reader option"

record change_event =
  files :: "js_file list option"

definition first_file :: "change_event \<Rightarrow> js_file option" where
  "first_file e =
     (case files e of
        None \<Rightarrow> None
      | Some fs \<Rightarrow> (case fs of [] \<Rightarrow> None | f # rest \<Rightarrow> Some f))"

text \<open>The callback stored in \<^verbatim>\<open>reader.onload\<close>.\<close>

definition onload :: "load_event \<Rightarrow> app_state \<Rightarrow> app_state" where
  "onload event st =
     (case target event of
        None \<Rightarrow> st
      | Some reader \<Rightarrow>
          (case result reader of
             ResultString s \<Rightarrow> st\<lparr>imgSrc := s\<rparr>
           | ResultArrayBuffer bytes \<Rightarrow> st
           | ResultNull \<Rightarrow> st))"

text \<open>
  \<open>readAsDataURL\<close> is what the browser's reader does with a file: the load event it
  delivers, or \<open>None\<close> when the read fails and no load event comes. The state is the one
  the callback finds when it runs.
\<close>

definition handleFileUpload ::
  "(js_file \<Rightarrow> load_event option) \<Rightarrow> change_event \<Rightarrow> app_state \<Rightarrow> app_state" where
  "handleFileUpload readAsDataURL e st =
     (case first_file e of
        None \<Rightarrow> st
      | Some file \<Rightarrow>
          (case readAsDataURL file of
             None \<Rightarrow> st
           | Some event \<Rightarrow> onload event st))"

section \<open>Download\<close>

text \<open>
  \<^verbatim>\<open>downloadImage\<close> works on the browser: it fetches, creates an object URL, and adds,
  clicks and removes an anchor. The part of the browser it touches is the record
  \<open>browser\<close>: the children of \<^verbatim>\<open>document.body\<close> (each node by its identity), the object
  URLs that are registered and not revoked, and the calls made so far, in order.
\<close>

record anchor =
  node :: nat
  href :: string
  download :: string

datatype response = Response string

datatype blob = Blob string

datatype api_call =
    Fetch string
  | ResponseBlob response
  | CreateObjectURL blob
  | CreateElement string
  | AppendChild nat
  | Click anchor
  | RemoveChild nat
  | RevokeObjectURL string
  | ConsoleError string js_error

record browser =
  body :: "nat list"
  object_urls :: "string set"
  calls :: "api_call list"

text \<open>
  What the browser answers is a parameter, the record \<open>answers\<close>: \<open>throws\<close> names the
  calls that fail and the error each throws (for \<^verbatim>\<open>fetch\<close> and \<^verbatim>\<open>blob\<close>, the reason their
  promise rejects with); \<open>object_url\<close> is the URL \<^verbatim>\<open>URL.createObjectURL\<close> returns,
  \<open>new_node\<close> the identity of the element \<^verbatim>\<open>document.createElement\<close> returns, and
  \<open>date_now\<close> the value of \<^verbatim>\<open>Date.now()\<close>.
\<close>

record answers =
  throws :: "api_call \<Rightarrow> js_error option"
  object_url :: string
  new_node :: nat
  date_now :: nat

text \<open>
  A step on the browser returns its value or the error it throws, and the browser as the
  step leaves it. \<open>js_bind\<close> is sequencing (a throw skips the rest); \<open>js_try_catch\<close>
  is \<^verbatim>\<open>try { ... } catch (error) { ... }\<close>.
\<close>

type_synonym 'a js = "browser \<Rightarrow> (js_error + 'a) \<times> browser"

definition js_return :: "'a \<Rightarrow> 'a js" where
  "js_return v b = (Inr v, b)"

definition js_bind :: "'a js \<Rightarrow> ('a \<Rightarrow> 'b js) \<Rightarrow> 'b js" where
  "js_bind m k b =
     (case m b of
        (Inl err, b') \<Rightarrow> (Inl err, b')
      | (Inr v, b') \<Rightarrow> k v b')"

definition js_try_catch :: "'a js \<Rightarrow> (js_error \<Rightarrow> 'a js) \<Rightarrow> 'a js" where
  "js_try_catch m handler b =
     (case m b of
        (Inl err, b') \<Rightarrow> handler err b'
      | (Inr v, b') \<Rightarrow> (Inr v, b'))"

text \<open>
  A call of a browser API: the call is recorded; it throws when the browser says so, and
  otherwise has its effect \<open>k\<close>.
\<close>

definition api :: "answers \<Rightarrow> api_call \<Rightarrow> 'a js \<Rightarrow> 'a js" where
  "api env c k b =
     (let b' = b\<lparr>calls := calls b @ [c]\<rparr> in
      (case throws env c of
         Some err \<Rightarrow> (Inl err, b')
       | None \<Rightarrow> k b'))"

definition fetch :: "answers \<Rightarrow> string \<Rightarrow> response js" where
  "fetch env url = api env (Fetch url) (js_return (Response url))"

definition response_blob :: "answers \<Rightarrow> response \<Rightarrow> blob js" where
  "response_blob env resp =
     api env (ResponseBlob resp) (case resp of Response url \<Rightarrow> js_return (Blob url))"

definition createObjectURL :: "answers \<Rightarrow> blob \<Rightarrow> string js" where
  "createObjectURL env bl =
     api env (CreateObjectURL bl)
       (\<lambda>b. (Inr (object_url env), b\<lparr>object_urls := insert (object_url env) (object_urls b)\<rparr>))"

definition revokeObjectURL :: "answers \<Rightarrow> string \<Rightarrow> unit js" where
  "revokeObjectURL env url =
     api env (RevokeObjectURL url)
       (\<lambda>b. (Inr (), b\<lparr>object_urls := object_urls b - {url}\<rparr>))"

definition createElement :: "answers \<Rightarrow> string \<Rightarrow> anchor js" where
  "createElement env tag =
     api env (CreateElement tag)
       (js_return \<lparr> node = new_node env, href = [], download = [] \<rparr>)"

text \<open>
  \<^verbatim>\<open>appendChild\<close> makes the node the last child (a node that is a child already is
  moved); \<^verbatim>\<open>removeChild\<close> throws when the node is not a child.
\<close>

definition appendChild :: "answers \<Rightarrow> anchor \<Rightarrow> unit js" where
  "appendChild env el =
     api env (AppendChild (node el))
       (\<lambda>b. (Inr (), b\<lparr>body := removeAll (node el) (body b) @ [node el]\<rparr>))"

definition removeChild :: "answers \<Rightarrow> anchor \<Rightarrow> unit js" where
  "removeChild env el =
     api env (RemoveChild (node el))
       (\<lambda>b. if node el \<in> set (body b)
            then (Inr (), b\<lparr>body := removeAll (node el) (body b)\<rparr>)
            else (Inl (JsError ''NotFoundError''), b))"

definition click :: "answers \<Rightarrow> anchor \<Rightarrow> unit js" where
  "click env el = api env (Click el) (js_return ())"

definition console_error :: "string \<Rightarrow> js_error \<Rightarrow> unit js" where
  "console_error msg err b = (Inr (), b\<lparr>calls := calls b @ [ConsoleError msg err]\<rparr>)"

text \<open>The decimal digits of a number, as a template literal writes \<^verbatim>\<open>Date.now()\<close>.\<close>

fun show_nat :: "nat \<Rightarrow> string" where
  "show_nat n =
     (if n < 10 then [''0123456789'' ! n]
      else show_nat (n div 10) @ [''0123456789'' ! (n mod 10)])"

declare show_nat.simps [simp del]

text \<open>A value is falsy when it is \<^verbatim>\<open>undefined\<close> or the empty string.\<close>

fun truthy :: "string option \<Rightarrow> bool" where
  "truthy None = False"
| "truthy (Some s) = (s \<noteq> [])"

text \<open>The body of the \<^verbatim>\<open>try\<close> block of \<^verbatim>\<open>downloadImage\<close>.\<close>

definition download_try :: "answers \<Rightarrow> string \<Rightarrow> export_format \<Rightarrow> unit js" where
  "download_try env preview fmt =
     js_bind (fetch env preview) (\<lambda>resp.
     js_bind (response_blob env resp) (\<lambda>bl.
     js_bind (createObjectURL env bl) (\<lambda>url.
     js_bind (createElement env ''a'') (\<lambda>created.
       (let link = created
              \<lparr> href := url,
                download := ''cropped-image-'' @ show_nat (date_now env) @ ''.'' @ format_name fmt \<rparr>
        in
     js_bind (appendChild env link) (\<lambda>u1.
     js_bind (click env link) (\<lambda>u2.
     js_bind (removeChild env link) (\<lambda>u3.
     revokeObjectURL env url))))))))"

definition downloadImage :: "answers \<Rightarrow> app_state \<Rightarrow> unit js" where
  "downloadImage env st =
     (case livePreview st of
        None \<Rightarrow> js_return ()
      | Some preview \<Rightarrow>
          if \<not> truthy (Some preview) then js_return ()
          else js_try_catch (download_try env preview (exportFormat st))
                 (\<lambda>error. console_error ''Error downloading image:'' error))"

text \<open>
  The anchor of the result section, rendered while \<^verbatim>\<open>croppedImage\<close> is truthy.
\<close>

definition result_link :: "app_state \<Rightarrow> (string \<times> string) option" where
  "result_link st =
     (case croppedImage st of
        None \<Rightarrow> None
      | Some url \<Rightarrow>
          if truthy (Some url)
          then Some (url, ''cropped.'' @ format_name (exportFormat st))
          else None)"

text \<open>
  The extension of a file name: what follows its last dot. A name with no dot has no
  extension.
\<close>

definition extension :: "string \<Rightarrow> string option" where
  "extension name =
     (if CHR ''.'' \<in> set name
      then Some (rev (takeWhile (\<lambda>c. c \<noteq> CHR ''.'') (rev name)))
      else None)"

section \<open>Properties\<close>

subsection \<open>Presets\<close>

text \<open>
  Claim C1. Every preset sets the aspect ratio to its value: \<open>profile\<close> to \<open>1\<close>,
  \<open>banner\<close> to \<open>16 / 9\<close>, \<open>thumbnail\<close> to \<open>4 / 3\<close>; every other cell of the state keeps
  its value.
\<close>

theorem applyPreset_sets_aspect_ratio:
  "applyPreset Profile st = st\<lparr>aspectRatio := Some 1\<rparr>
   \<and> applyPreset Banner st = st\<lparr>aspectRatio := Some (16 / 9)\<rparr>
   \<and> applyPreset Thumbnail st = st\<lparr>aspectRatio := Some (4 / 3)\<rparr>
   \<and> aspectRatio (applyPreset p st) =
        Some (case p of Profile \<Rightarrow> 1 | Banner \<Rightarrow> 16 / 9 | Thumbnail \<Rightarrow> 4 / 3)
   \<and> applyPreset p st = st\<lparr>aspectRatio := aspectRatio (applyPreset p st)\<rparr>"
  by (cases p) simp_all

subsection \<open>Flips and the scale effects\<close>

text \<open>
  The claim as it is written fails on the second horizontal flip: \<open>scaleX\<close> is back at
  \<open>1\<close>, and the effect calls \<^verbatim>\<open>$scale(-1, 1)\<close>, not \<^verbatim>\<open>$scale(1, 1)\<close>.
\<close>

theorem flip_passes_updated_factor_counterexample:
  "snd (click_flip_horizontal (Some CropperImage)
          (handleFlipHorizontal (initial_state ''image1.png'')))
     = [Scale (- 1) 1]
   \<and> scaleX (fst (click_flip_horizontal (Some CropperImage)
          (handleFlipHorizontal (initial_state ''image1.png'')))) = 1
   \<and> snd (click_flip_horizontal (Some CropperImage)
          (handleFlipHorizontal (initial_state ''image1.png'')))
     \<noteq> [Scale
          (scaleX (fst (click_flip_horizontal (Some CropperImage)
             (handleFlipHorizontal (initial_state ''image1.png'')))))
          (scaleY (fst (click_flip_horizontal (Some CropperImage)
             (handleFlipHorizontal (initial_state ''image1.png'')))))]"
  by (simp add: click_flip_horizontal_def handleFlipHorizontal_def run_effects_def
      scaleX_effect_def scaleY_effect_def initial_state_def)

text \<open>
  Claim C2, amended. A horizontal flip negates \<open>scaleX\<close> and then, when the image element
  is mounted, calls \<^verbatim>\<open>$scale\<close> once, with the constant \<open>-1\<close> as the horizontal factor and
  the current \<open>scaleY\<close>; a vertical flip negates \<open>scaleY\<close> and calls \<^verbatim>\<open>$scale\<close> with the
  current \<open>scaleX\<close> and the constant \<open>-1\<close>. With no image element no call is made. The
  factor flipped is not zero (it is \<open>1\<close> or \<open>-1\<close>), so the negation is a change and the
  effect of that factor runs; the effect of the other factor does not.
\<close>

theorem flip_scales_by_minus_one:
  "(scaleX st \<noteq> 0 \<longrightarrow>
      click_flip_horizontal imageRef st =
        (st\<lparr>scaleX := - scaleX st\<rparr>,
         case imageRef of None \<Rightarrow> [] | Some el \<Rightarrow> [Scale (- 1) (scaleY st)]))
   \<and> (scaleY st \<noteq> 0 \<longrightarrow>
      click_flip_vertical imageRef st =
        (st\<lparr>scaleY := - scaleY st\<rparr>,
         case imageRef of None \<Rightarrow> [] | Some el \<Rightarrow> [Scale (scaleX st) (- 1)]))"
  by (simp add: click_flip_horizontal_def click_flip_vertical_def handleFlipHorizontal_def
      handleFlipVertical_def run_effects_def scaleX_effect_def scaleY_effect_def Let_def
      split: option.splits)

theorem flip_scales_by_minus_one_witness:
  "click_flip_horizontal (Some CropperImage) (initial_state ''image1.png'') =
     ((initial_state ''image1.png'')\<lparr>scaleX := - 1\<rparr>, [Scale (- 1) 1])
   \<and> click_flip_vertical (Some CropperImage) (initial_state ''image1.png'') =
     ((initial_state ''image1.png'')\<lparr>scaleY := - 1\<rparr>, [Scale 1 (- 1)])"
  using flip_scales_by_minus_one [of "initial_state ''image1.png''" "Some CropperImage"]
  by (simp add: initial_state_def)

lemma flip_action_factors:
  "scaleX (flip_action f st) \<in> {scaleX st, - scaleX st}
   \<and> scaleY (flip_action f st) \<in> {scaleY st, - scaleY st}"
  by (cases f) (simp_all add: handleFlipHorizontal_def handleFlipVertical_def)

lemma flips_factors:
  "scaleX (flips fs st) \<in> {scaleX st, - scaleX st}
   \<and> scaleY (flips fs st) \<in> {scaleY st, - scaleY st}"
proof (induction fs arbitrary: st)
  case Nil
  show ?case by simp
next
  case (Cons f fs)
  have step: "scaleX (flip_action f st) \<in> {scaleX st, - scaleX st}"
    "scaleY (flip_action f st) \<in> {scaleY st, - scaleY st}"
    using flip_action_factors [of f st] by simp_all
  have rest: "scaleX (flips fs (flip_action f st))
      \<in> {scaleX (flip_action f st), - scaleX (flip_action f st)}"
    "scaleY (flips fs (flip_action f st))
      \<in> {scaleY (flip_action f st), - scaleY (flip_action f st)}"
    using Cons.IH [of "flip_action f st"] by simp_all
  from step rest show ?case by auto
qed

text \<open>
  Claim C8. Both factors start at \<open>1\<close>, and after any sequence of flips from the initial
  state each of them is \<open>1\<close> or \<open>-1\<close>.
\<close>

theorem scale_factors_stay_unit:
  "scaleX (initial_state image1) = 1
   \<and> scaleY (initial_state image1) = 1
   \<and> scaleX (flips fs (initial_state image1)) \<in> {- 1, 1}
   \<and> scaleY (flips fs (initial_state image1)) \<in> {- 1, 1}"
  using flips_factors [of fs "initial_state image1"]
  by (auto simp: initial_state_def)

text \<open>
  Claim C9. Two horizontal flips in a row give the state back, and so do two vertical
  flips: the factor of the axis returns to its value and nothing else has moved.
\<close>

theorem flip_twice_restores:
  "handleFlipHorizontal (handleFlipHorizontal st) = st
   \<and> handleFlipVertical (handleFlipVertical st) = st
   \<and> scaleX (handleFlipHorizontal (handleFlipHorizontal st)) = scaleX st
   \<and> scaleY (handleFlipVertical (handleFlipVertical st)) = scaleY st"
  by (simp add: handleFlipHorizontal_def handleFlipVertical_def)

subsection \<open>The crop rectangle\<close>

lemma Math_round_is_round: "Math_round v = of_int (round v)"
  by (simp add: Math_round_def round_def)

lemma Math_round_nearest: "\<bar>Math_round v - v\<bar> \<le> \<bar>of_int m - v\<bar>"
  using round_diff_minimal [of v m]
  by (simp add: Math_round_is_round abs_minus_commute)

text \<open>
  Claim C4. With a selection element, \<^verbatim>\<open>onCrop\<close> stores the rectangle of the selection's
  \<open>x\<close>, \<open>y\<close>, \<open>width\<close> and \<open>height\<close>, each rounded, and changes nothing else; with no
  selection element the state is as it was. A rounded value is an integer, and no integer
  \<open>m\<close> is closer to the value rounded.
\<close>

theorem onCrop_stores_rounded_rectangle:
  "fst (onCrop (Some selection) st) =
     st\<lparr>cropData := Some
          \<lparr> crop_x = Math_round (sel_x selection),
            crop_y = Math_round (sel_y selection),
            crop_width = Math_round (sel_width selection),
            crop_height = Math_round (sel_height selection) \<rparr>\<rparr>
   \<and> fst (onCrop None st) = st
   \<and> Math_round v \<in> \<int>
   \<and> \<bar>Math_round v - v\<bar> \<le> \<bar>of_int m - v\<bar>"
proof -
  have whole: "Math_round v \<in> \<int>"
    by (simp add: Math_round_def)
  show ?thesis
    using Math_round_nearest [of v m] whole by (simp add: onCrop_def)
qed

subsection \<open>Failures of the asynchronous handlers\<close>

lemmas js_defs = js_return_def js_bind_def js_try_catch_def api_def
  fetch_def response_blob_def createObjectURL_def revokeObjectURL_def createElement_def
  appendChild_def removeChild_def click_def console_error_def

text \<open>
  \<^verbatim>\<open>downloadImage\<close> has the \<^verbatim>\<open>try\<close> block: whatever call fails, its promise is fulfilled,
  and the error is the last thing logged.
\<close>

lemma downloadImage_never_rejects: "fst (downloadImage env st b) = Inr ()"
  by (simp add: downloadImage_def js_return_def js_try_catch_def console_error_def
      split: option.splits sum.splits prod.splits)

lemma downloadImage_logs_failure:
  assumes "livePreview st = Some p" and "p \<noteq> []"
    and "fst (download_try env p (exportFormat st) b) = Inl err"
  shows "\<exists>cs. calls (snd (downloadImage env st b)) =
           cs @ [ConsoleError ''Error downloading image:'' err]"
proof -
  obtain b' where "download_try env p (exportFormat st) b = (Inl err, b')"
    using assms(3) by (cases "download_try env p (exportFormat st) b") auto
  with assms(1,2) show ?thesis
    by (simp add: downloadImage_def js_try_catch_def console_error_def)
qed

text \<open>
  Claim C3 does not hold of \<^verbatim>\<open>handleGetResult\<close> and \<^verbatim>\<open>updateLivePreview\<close>: they have no
  \<^verbatim>\<open>try\<close> block. With a selection whose \<^verbatim>\<open>$toCanvas()\<close> rejects, the promise each of them
  returns is rejected with that error, and so is the promise \<^verbatim>\<open>onCrop\<close> leaves pending.
\<close>

theorem toCanvas_rejection_is_not_caught:
  "settled (handleGetResult
      (Some \<lparr> sel_x = 0, sel_y = 0, sel_width = 10, sel_height = 10,
              toCanvas = Inl (JsError ''not connected'') \<rparr>)
      (initial_state ''image1.png'')) = Inl (JsError ''not connected'')
   \<and> settled (updateLivePreview
      (Some \<lparr> sel_x = 0, sel_y = 0, sel_width = 10, sel_height = 10,
              toCanvas = Inl (JsError ''not connected'') \<rparr>)) = Inl (JsError ''not connected'')
   \<and> settled (snd (onCrop
      (Some \<lparr> sel_x = 0, sel_y = 0, sel_width = 10, sel_height = 10,
              toCanvas = Inl (JsError ''not connected'') \<rparr>)
      (initial_state ''image1.png''))) = Inl (JsError ''not connected'')"
  by (simp add: handleGetResult_def updateLivePreview_def onCrop_def rejected_def)

subsection \<open>File upload\<close>

text \<open>
  Claim C7. \<^verbatim>\<open>handleFileUpload\<close> leaves the state as it was when the event has no file,
  when no load event comes, when the load event has no target, and when the result of the
  reader is not a string; with a file and a string result it sets \<open>imgSrc\<close> to that
  string and changes nothing else.
\<close>

theorem handleFileUpload_sets_imgSrc_only_from_string:
  "(first_file e = None \<longrightarrow> handleFileUpload rd e st = st)
   \<and> (first_file e = Some f \<and> rd f = None \<longrightarrow> handleFileUpload rd e st = st)
   \<and> (first_file e = Some f \<and> rd f = Some ev \<and> target ev = None
        \<longrightarrow> handleFileUpload rd e st = st)
   \<and> (first_file e = Some f \<and> rd f = Some ev \<and> target ev = Some r
        \<and> (\<forall>s. result r \<noteq> ResultString s)
        \<longrightarrow> handleFileUpload rd e st = st)
   \<and> (first_file e = Some f \<and> rd f = Some ev \<and> target ev = Some r
        \<and> result r = ResultString s
        \<longrightarrow> handleFileUpload rd e st = st\<lparr>imgSrc := s\<rparr>)"
  by (auto simp: handleFileUpload_def onload_def split: option.splits file_result.splits)

theorem handleFileUpload_sets_imgSrc_only_from_string_witness:
  "handleFileUpload
     (\<lambda>f. Some \<lparr> target = Some \<lparr> result = ResultString ''data:image/png;base64,AA'' \<rparr> \<rparr>)
     \<lparr> files = Some [''photo.png''] \<rparr> (initial_state ''image1.png'')
   = (initial_state ''image1.png'')\<lparr>imgSrc := ''data:image/png;base64,AA''\<rparr>
   \<and> handleFileUpload
     (\<lambda>f. Some \<lparr> target = Some \<lparr> result = ResultNull \<rparr> \<rparr>)
     \<lparr> files = Some [''photo.png''] \<rparr> (initial_state ''image1.png'')
   = initial_state ''image1.png''
   \<and> handleFileUpload
     (\<lambda>f. Some \<lparr> target = Some \<lparr> result = ResultString ''data:image/png;base64,AA'' \<rparr> \<rparr>)
     \<lparr> files = Some [] \<rparr> (initial_state ''image1.png'')
   = initial_state ''image1.png''"
proof -
  let ?ok = "\<lambda>f::js_file.
    Some \<lparr> target = Some \<lparr> result = ResultString ''data:image/png;base64,AA'' \<rparr> \<rparr>"
  let ?null = "\<lambda>f::js_file. Some \<lparr> target = Some \<lparr> result = ResultNull \<rparr> \<rparr>"
  have one: "first_file \<lparr> files = Some [''photo.png''] \<rparr> = Some ''photo.png''"
    by (simp add: first_file_def)
  have none: "first_file \<lparr> files = Some [] \<rparr> = None"
    by (simp add: first_file_def)
  show ?thesis
    using
      handleFileUpload_sets_imgSrc_only_from_string
        [of "\<lparr> files = Some [''photo.png''] \<rparr>" ?ok "initial_state ''image1.png''"
            "''photo.png''"
            "\<lparr> target = Some \<lparr> result = ResultString ''data:image/png;base64,AA'' \<rparr> \<rparr>"
            "\<lparr> result = ResultString ''data:image/png;base64,AA'' \<rparr>"
            "''data:image/png;base64,AA''"]
      handleFileUpload_sets_imgSrc_only_from_string
        [of "\<lparr> files = Some [''photo.png''] \<rparr>" ?null "initial_state ''image1.png''"
            "''photo.png''"
            "\<lparr> target = Some \<lparr> result = ResultNull \<rparr> \<rparr>"
            "\<lparr> result = ResultNull \<rparr>" "[]"]
      handleFileUpload_sets_imgSrc_only_from_string
        [of "\<lparr> files = Some [] \<rparr>" ?ok "initial_state ''image1.png''"]
      one none
    by simp
qed

subsection \<open>Download\<close>

text \<open>
  When no call of the \<^verbatim>\<open>try\<close> block fails, and the node and the URL the browser hands
  out are new, the block makes its eight calls and leaves the children of the body and
  the registered object URLs as they were.
\<close>

lemma download_try_success:
  assumes ok: "fst (download_try env p fmt b) = Inr ()"
    and fresh_node: "new_node env \<notin> set (body b)"
    and fresh_url: "object_url env \<notin> object_urls b"
  shows "download_try env p fmt b =
     (Inr (),
      b\<lparr>calls := calls b @
          [Fetch p, ResponseBlob (Response p), CreateObjectURL (Blob p), CreateElement ''a'',
           AppendChild (new_node env),
           Click \<lparr> node = new_node env, href = object_url env,
                   download = ''cropped-image-'' @ show_nat (date_now env) @ ''.''
                              @ format_name fmt \<rparr>,
           RemoveChild (new_node env), RevokeObjectURL (object_url env)]\<rparr>)"
  using assms
  by (simp add: download_try_def js_defs Let_def
      split: option.splits sum.splits prod.splits if_splits)

text \<open>On every path, an anchor the block clicks has the file name the block built.\<close>

lemma download_try_clicks:
  "\<exists>cs. calls (snd (download_try env p fmt b)) = calls b @ cs
     \<and> (\<forall>a. Click a \<in> set cs \<longrightarrow>
           download a = ''cropped-image-'' @ show_nat (date_now env) @ ''.'' @ format_name fmt)"
  by (simp add: download_try_def js_defs Let_def
      split: option.splits sum.splits prod.splits if_splits)

lemma extension_of_format:
  "extension (pre @ ''.'' @ format_name fmt) = Some (format_name fmt)"
  by (cases fmt) (simp_all add: extension_def takeWhile_tail)

lemma downloadImage_clicked_name:
  assumes new: "Click a \<in> set (calls (snd (downloadImage env st b)))"
    and old: "Click a \<notin> set (calls b)"
  shows "download a =
    ''cropped-image-'' @ show_nat (date_now env) @ ''.'' @ format_name (exportFormat st)"
proof (cases "livePreview st")
  case None
  with new old show ?thesis by (simp add: downloadImage_def js_return_def)
next
  case (Some p)
  show ?thesis
  proof (cases "p = []")
    case True
    with Some new old show ?thesis by (simp add: downloadImage_def js_return_def)
  next
    case False
    obtain cs where cs: "calls (snd (download_try env p (exportFormat st) b)) = calls b @ cs"
      and name: "\<forall>a. Click a \<in> set cs \<longrightarrow>
         download a = ''cropped-image-'' @ show_nat (date_now env) @ ''.''
                      @ format_name (exportFormat st)"
      using download_try_clicks [of env p "exportFormat st" b] by blast
    have "Click a \<in> set (calls (snd (download_try env p (exportFormat st) b)))"
      using new Some False
      by (cases "download_try env p (exportFormat st) b")
         (auto simp: downloadImage_def js_try_catch_def console_error_def split: sum.splits)
    with cs old have "Click a \<in> set cs" by simp
    with name show ?thesis by simp
  qed
qed

text \<open>
  When none of the five calls before it throws, the block does click the anchor, and the
  anchor carries the object URL and the file name built from the selected format.
\<close>

lemma download_try_reaches_click:
  assumes "throws env (Fetch p) = None"
    and "throws env (ResponseBlob (Response p)) = None"
    and "throws env (CreateObjectURL (Blob p)) = None"
    and "throws env (CreateElement ''a'') = None"
    and "throws env (AppendChild (new_node env)) = None"
  shows "Click \<lparr> node = new_node env, href = object_url env,
                 download = ''cropped-image-'' @ show_nat (date_now env) @ ''.''
                            @ format_name fmt \<rparr>
           \<in> set (calls (snd (download_try env p fmt b)))"
  using assms
  by (simp add: download_try_def js_defs Let_def
      split: option.splits sum.splits prod.splits if_splits)

lemma downloadImage_reaches_click:
  assumes "livePreview st = Some p" and "p \<noteq> []"
    and "throws env (Fetch p) = None"
    and "throws env (ResponseBlob (Response p)) = None"
    and "throws env (CreateObjectURL (Blob p)) = None"
    and "throws env (CreateElement ''a'') = None"
    and "throws env (AppendChild (new_node env)) = None"
  shows "Click \<lparr> node = new_node env, href = object_url env,
                 download = ''cropped-image-'' @ show_nat (date_now env) @ ''.''
                            @ format_name (exportFormat st) \<rparr>
           \<in> set (calls (snd (downloadImage env st b)))"
proof -
  have "Click \<lparr> node = new_node env, href = object_url env,
                download = ''cropped-image-'' @ show_nat (date_now env) @ ''.''
                           @ format_name (exportFormat st) \<rparr>
          \<in> set (calls (snd (download_try env p (exportFormat st) b)))"
    using assms(3-7) by (rule download_try_reaches_click)
  with assms(1,2) show ?thesis
    by (cases "download_try env p (exportFormat st) b")
       (auto simp: downloadImage_def js_try_catch_def console_error_def split: sum.splits)
qed

text \<open>
  Claim C5. When the canvas of the selection is there and encodes, \<^verbatim>\<open>handleGetResult\<close>
  stores what \<open>toDataURL\<close> answers to the MIME type \<open>image/\<close> followed by the name of the
  selected format, and to the current \<open>exportQuality\<close>; the three MIME types are
  \<open>image/png\<close>, \<open>image/jpeg\<close> and \<open>image/webp\<close>. Both download links are produced with a
  file name that ends in a dot and the selected format: while \<open>croppedImage\<close> is truthy
  the result section renders its anchor with the name \<open>cropped.\<close> and the format;
  \<^verbatim>\<open>downloadImage\<close>, when \<open>livePreview\<close> is truthy and none of the five calls before the
  click throws, clicks an anchor named \<open>cropped-image-\<close>, the time, a dot and the format,
  and it never clicks an anchor with another name. The extension of such names is the
  format.
\<close>

theorem export_uses_selected_format:
  "(toCanvas selection = Inr canvas
      \<and> toDataURL canvas (Some (''image/'' @ format_name (exportFormat st)))
            (Some (exportQuality st)) = Inr dataUrl
     \<longrightarrow> settled (handleGetResult (Some selection) st) = Inr ()
        \<and> setState (handleGetResult (Some selection) st) cur
            = cur\<lparr>croppedImage := Some dataUrl\<rparr>)
   \<and> ''image/'' @ format_name Png = ''image/png''
   \<and> ''image/'' @ format_name Jpeg = ''image/jpeg''
   \<and> ''image/'' @ format_name Webp = ''image/webp''
   \<and> (croppedImage st = Some url \<and> url \<noteq> []
        \<longrightarrow> result_link st = Some (url, ''cropped.'' @ format_name (exportFormat st))
          \<and> extension (''cropped.'' @ format_name (exportFormat st))
              = Some (format_name (exportFormat st)))
   \<and> (livePreview st = Some p \<and> p \<noteq> []
        \<and> throws env (Fetch p) = None
        \<and> throws env (ResponseBlob (Response p)) = None
        \<and> throws env (CreateObjectURL (Blob p)) = None
        \<and> throws env (CreateElement ''a'') = None
        \<and> throws env (AppendChild (new_node env)) = None
        \<longrightarrow> Click \<lparr> node = new_node env, href = object_url env,
                     download = ''cropped-image-'' @ show_nat (date_now env) @ ''.''
                                @ format_name (exportFormat st) \<rparr>
              \<in> set (calls (snd (downloadImage env st b))))
   \<and> (Click a \<in> set (calls (snd (downloadImage env st b))) \<and> Click a \<notin> set (calls b)
        \<longrightarrow> download a = ''cropped-image-'' @ show_nat (date_now env) @ ''.''
                         @ format_name (exportFormat st)
          \<and> extension (download a) = Some (format_name (exportFormat st)))"
proof -
  have encode: "toCanvas selection = Inr canvas
      \<and> toDataURL canvas (Some (''image/'' @ format_name (exportFormat st)))
            (Some (exportQuality st)) = Inr dataUrl
     \<longrightarrow> settled (handleGetResult (Some selection) st) = Inr ()
        \<and> setState (handleGetResult (Some selection) st) cur
            = cur\<lparr>croppedImage := Some dataUrl\<rparr>"
    by (simp add: handleGetResult_def fulfilled_def)
  have rendered: "croppedImage st = Some url \<and> url \<noteq> []
      \<longrightarrow> result_link st = Some (url, ''cropped.'' @ format_name (exportFormat st))"
    by (simp add: result_link_def)
  have ext_result: "extension (''cropped.'' @ format_name (exportFormat st))
      = Some (format_name (exportFormat st))"
    using extension_of_format [of "''cropped''" "exportFormat st"] by simp
  have ext_download: "extension
      (''cropped-image-'' @ show_nat (date_now env) @ ''.'' @ format_name (exportFormat st))
      = Some (format_name (exportFormat st))"
    using extension_of_format
      [of "''cropped-image-'' @ show_nat (date_now env)" "exportFormat st"]
    by simp
  have clicks: "livePreview st = Some p \<and> p \<noteq> []
        \<and> throws env (Fetch p) = None
        \<and> throws env (ResponseBlob (Response p)) = None
        \<and> throws env (CreateObjectURL (Blob p)) = None
        \<and> throws env (CreateElement ''a'') = None
        \<and> throws env (AppendChild (new_node env)) = None
        \<longrightarrow> Click \<lparr> node = new_node env, href = object_url env,
                     download = ''cropped-image-'' @ show_nat (date_now env) @ ''.''
                                @ format_name (exportFormat st) \<rparr>
              \<in> set (calls (snd (downloadImage env st b)))"
    using downloadImage_reaches_click [of st p env b] by blast
  have named: "Click a \<in> set (calls (snd (downloadImage env st b)))
        \<and> Click a \<notin> set (calls b)
        \<longrightarrow> download a = ''cropped-image-'' @ show_nat (date_now env) @ ''.''
                         @ format_name (exportFormat st)
          \<and> extension (download a) = Some (format_name (exportFormat st))"
    using downloadImage_clicked_name [of a env st b] ext_download by auto
  have mime: "''image/'' @ format_name Png = ''image/png''"
    "''image/'' @ format_name Jpeg = ''image/jpeg''"
    "''image/'' @ format_name Webp = ''image/webp''"
    by simp_all
  from encode mime rendered ext_result clicks named show ?thesis
    by blast
qed

theorem export_uses_selected_format_witness:
  "setState (handleGetResult
      (Some \<lparr> sel_x = 0, sel_y = 0, sel_width = 10, sel_height = 10,
              toCanvas = Inr \<lparr> toDataURL =
                (\<lambda>m q. Inr (case m of None \<Rightarrow> ''data:image/png'' | Some t \<Rightarrow> ''data:'' @ t)) \<rparr> \<rparr>)
      ((initial_state ''image1.png'')\<lparr>exportFormat := Jpeg\<rparr>))
      (initial_state ''image1.png'')
    = (initial_state ''image1.png'')\<lparr>croppedImage := Some ''data:image/jpeg''\<rparr>
   \<and> result_link
       ((initial_state ''image1.png'')
          \<lparr>exportFormat := Jpeg, livePreview := Some ''data:image/png'',
           croppedImage := Some ''data:image/jpeg''\<rparr>)
      = Some (''data:image/jpeg'', ''cropped.jpeg'')
   \<and> extension ''cropped.jpeg'' = Some ''jpeg''
   \<and> Click \<lparr> node = 7, href = ''blob:1'', download = ''cropped-image-12.jpeg'' \<rparr>
       \<in> set (calls (snd (downloadImage
            \<lparr> throws = (\<lambda>c. None), object_url = ''blob:1'', new_node = 7, date_now = 12 \<rparr>
            ((initial_state ''image1.png'')
               \<lparr>exportFormat := Jpeg, livePreview := Some ''data:image/png'',
                croppedImage := Some ''data:image/jpeg''\<rparr>)
            \<lparr> body = [1, 2], object_urls = {}, calls = [] \<rparr>)))
   \<and> extension ''cropped-image-12.jpeg'' = Some ''jpeg''"
proof -
  let ?canvas = "\<lparr> toDataURL =
    (\<lambda>m q. Inr (case m of None \<Rightarrow> ''data:image/png'' | Some t \<Rightarrow> ''data:'' @ t)) \<rparr>"
  let ?sel = "\<lparr> sel_x = 0, sel_y = 0, sel_width = 10, sel_height = 10,
    toCanvas = Inr ?canvas \<rparr>"
  let ?st = "(initial_state ''image1.png'')
    \<lparr>exportFormat := Jpeg, livePreview := Some ''data:image/png'',
     croppedImage := Some ''data:image/jpeg''\<rparr>"
  let ?env = "\<lparr> throws = (\<lambda>c. None), object_url = ''blob:1'', new_node = 7, date_now = 12 \<rparr>"
  let ?b = "\<lparr> body = [1, 2], object_urls = {}, calls = [] \<rparr>"
  let ?a = "\<lparr> node = 7, href = ''blob:1'', download = ''cropped-image-12.jpeg'' \<rparr>"
  have digits: "show_nat 12 = ''12''"
    by (simp add: show_nat.simps)
  have cells: "croppedImage ?st = Some ''data:image/jpeg''" "''data:image/jpeg'' \<noteq> []"
    "livePreview ?st = Some ''data:image/png''" "''data:image/png'' \<noteq> []"
    "exportFormat ?st = Jpeg" "exportQuality ?st = 92 / 100"
    by (simp_all add: initial_state_def)
  have quiet: "throws ?env c = None" for c
    by simp
  have fresh: "Click ?a \<notin> set (calls ?b)"
    by simp
  note first = export_uses_selected_format
      [where selection = ?sel and canvas = ?canvas
         and st = "(initial_state ''image1.png'')\<lparr>exportFormat := Jpeg\<rparr>"
         and dataUrl = "''data:image/jpeg''" and cur = "initial_state ''image1.png''"]
  note second = export_uses_selected_format
      [where st = ?st and url = "''data:image/jpeg''" and p = "''data:image/png''"
         and env = ?env and b = ?b and a = ?a]
  have encoded: "setState (handleGetResult (Some ?sel)
        ((initial_state ''image1.png'')\<lparr>exportFormat := Jpeg\<rparr>))
        (initial_state ''image1.png'')
      = (initial_state ''image1.png'')\<lparr>croppedImage := Some ''data:image/jpeg''\<rparr>"
    using first by (simp add: initial_state_def)
  have link: "result_link ?st = Some (''data:image/jpeg'', ''cropped.jpeg'')"
    "extension ''cropped.jpeg'' = Some ''jpeg''"
    using second cells by simp_all
  have clicked: "Click ?a \<in> set (calls (snd (downloadImage ?env ?st ?b)))"
    using second cells quiet digits by simp
  have ext: "extension ''cropped-image-12.jpeg'' = Some ''jpeg''"
    using second cells clicked fresh digits by simp
  from encoded link clicked ext show ?thesis
    by simp
qed

text \<open>
  Claim C10. With \<open>livePreview\<close> undefined \<^verbatim>\<open>downloadImage\<close> returns at once: no call is
  made and the browser is as it was. On the path where no call of the \<^verbatim>\<open>try\<close> block
  fails (the node and the URL handed out being new), the promise is fulfilled, the children
  of the body are as they were, the registered object URLs are as they were, and the calls
  made are the eight of the block: the anchor appended is the one removed, and the URL
  created is the one revoked.
\<close>

theorem downloadImage_frame:
  "(livePreview st = None \<longrightarrow> downloadImage env st b = (Inr (), b))
   \<and> (livePreview st = Some p \<and> p \<noteq> []
        \<and> fst (download_try env p (exportFormat st) b) = Inr ()
        \<and> new_node env \<notin> set (body b) \<and> object_url env \<notin> object_urls b
      \<longrightarrow> fst (downloadImage env st b) = Inr ()
        \<and> body (snd (downloadImage env st b)) = body b
        \<and> object_urls (snd (downloadImage env st b)) = object_urls b
        \<and> calls (snd (downloadImage env st b)) = calls b @
            [Fetch p, ResponseBlob (Response p), CreateObjectURL (Blob p), CreateElement ''a'',
             AppendChild (new_node env),
             Click \<lparr> node = new_node env, href = object_url env,
                     download = ''cropped-image-'' @ show_nat (date_now env) @ ''.''
                                @ format_name (exportFormat st) \<rparr>,
             RemoveChild (new_node env), RevokeObjectURL (object_url env)])"
proof -
  have noop: "livePreview st = None \<longrightarrow> downloadImage env st b = (Inr (), b)"
    by (simp add: downloadImage_def js_return_def)
  have success: "fst (downloadImage env st b) = Inr ()
        \<and> body (snd (downloadImage env st b)) = body b
        \<and> object_urls (snd (downloadImage env st b)) = object_urls b
        \<and> calls (snd (downloadImage env st b)) = calls b @
            [Fetch p, ResponseBlob (Response p), CreateObjectURL (Blob p), CreateElement ''a'',
             AppendChild (new_node env),
             Click \<lparr> node = new_node env, href = object_url env,
                     download = ''cropped-image-'' @ show_nat (date_now env) @ ''.''
                                @ format_name (exportFormat st) \<rparr>,
             RemoveChild (new_node env), RevokeObjectURL (object_url env)]"
    if h: "livePreview st = Some p" "p \<noteq> []"
      "fst (download_try env p (exportFormat st) b) = Inr ()"
      "new_node env \<notin> set (body b)" "object_url env \<notin> object_urls b"
    using h(1,2) download_try_success [OF h(3,4,5)]
    by (simp add: downloadImage_def js_try_catch_def)
  from noop success show ?thesis by blast
qed

theorem downloadImage_frame_witness:
  "downloadImage
     \<lparr> throws = (\<lambda>c. None), object_url = ''blob:1'', new_node = 7, date_now = 12 \<rparr>
     (initial_state ''image1.png'')
     \<lparr> body = [1, 2], object_urls = {''blob:0''}, calls = [] \<rparr>
    = (Inr (), \<lparr> body = [1, 2], object_urls = {''blob:0''}, calls = [] \<rparr>)
   \<and> body (snd (downloadImage
     \<lparr> throws = (\<lambda>c. None), object_url = ''blob:1'', new_node = 7, date_now = 12 \<rparr>
     ((initial_state ''image1.png'')\<lparr>livePreview := Some ''data:image/png''\<rparr>)
     \<lparr> body = [1, 2], object_urls = {''blob:0''}, calls = [] \<rparr>)) = [1, 2]
   \<and> object_urls (snd (downloadImage
     \<lparr> throws = (\<lambda>c. None), object_url = ''blob:1'', new_node = 7, date_now = 12 \<rparr>
     ((initial_state ''image1.png'')\<lparr>livePreview := Some ''data:image/png''\<rparr>)
     \<lparr> body = [1, 2], object_urls = {''blob:0''}, calls = [] \<rparr>)) = {''blob:0''}"
proof -
  let ?env = "\<lparr> throws = (\<lambda>c. None), object_url = ''blob:1'', new_node = 7, date_now = 12 \<rparr>"
  let ?b = "\<lparr> body = [1, 2], object_urls = {''blob:0''}, calls = [] \<rparr>"
  let ?st = "(initial_state ''image1.png'')\<lparr>livePreview := Some ''data:image/png''\<rparr>"
  have none: "livePreview (initial_state ''image1.png'') = None"
    by (simp add: initial_state_def)
  have some: "livePreview ?st = Some ''data:image/png''" "''data:image/png'' \<noteq> []"
    by simp_all
  have ok: "fst (download_try ?env ''data:image/png'' (exportFormat ?st) ?b) = Inr ()"
    by (simp add: download_try_def js_defs Let_def)
  have fresh: "new_node ?env \<notin> set (body ?b)" "object_url ?env \<notin> object_urls ?b"
    by simp_all
  show ?thesis
    using
      downloadImage_frame
        [where st = "initial_state ''image1.png''" and env = ?env and b = ?b]
      downloadImage_frame
        [where st = ?st and p = "''data:image/png''" and env = ?env and b = ?b]
      none some ok fresh
    by simp
qed

end
